theory Spec2Isabelle
  imports Complex_Main
begin

section \<open>Backdoor trigger transforms of \<open>cupbearer/data/backdoors.py\<close>\<close>

text \<open>
  The three transforms of the module are embedded as HOL functions.  Conventions:
  \<^item> a numpy array or torch tensor is its shape together with its elements in row-major
    order; the elements are idealised as real numbers (tensor arithmetic is exact, and
    there is no NaN and no infinity);
  \<^item> the scalar arithmetic that decides a branch is rounded as the source rounds it: the
    probabilities are added in \<open>float64\<close>, and a draw of \<open>torch.rand\<close> is compared
    with a threshold in \<open>float32\<close>;
  \<^item> every random draw of the source (\<open>torch.rand\<close>, \<open>np.random.normal\<close>,
    \<open>torch.rand_like\<close>) is an explicit argument of the model;
  \<^item> every exception of the source is a value \<open>Inl e\<close>;
  \<^item> arrays and tensors are objects: the in-place write of
    \<open>CornerPixelBackdoor.__call__\<close> acts on a store of arrays, since the caller keeps a
    reference to the array it passed, and \<open>WanetBackdoor.__call__\<close> runs on a store of
    tensors that holds the control grid.
\<close>

subsection \<open>Errors and arrays\<close>

datatype error =
    AssertionError
  | IndexError
  | ValueError
  | RuntimeError
  | ConfigurationError
  \<comment> \<open>\<open>ConfigurationError\<close> is the kind the specification names; no path of the source raises it.\<close>

record ndarray =
  shape :: "nat list"
  elems :: "real list"

text \<open>
  Arrays and tensors are objects held by reference; a store maps addresses to them.
\<close>

type_synonym addr = nat
type_synonym store = "addr \<Rightarrow> ndarray"

definition numel :: "nat list \<Rightarrow> nat" where
  "numel shp = prod_list shp"

definition wf_array :: "ndarray \<Rightarrow> bool" where
  "wf_array t \<longleftrightarrow> length (elems t) = numel (shape t)"

text \<open>Python indexing of an axis of length \<open>n\<close>: a negative index counts from the end.\<close>

definition norm_index :: "nat \<Rightarrow> int \<Rightarrow> nat option" where
  "norm_index n i =
     (let j = (if i < 0 then int n + i else i)
      in if 0 \<le> j \<and> j < int n then Some (nat j) else None)"

text \<open>
  \<open>arr[i, j] = v\<close> with two integer indices and a scalar \<open>v\<close>: the scalar is broadcast
  over the sub-array at \<open>(i, j)\<close>, that is over all trailing axes.  Fewer than two axes,
  or an index out of range, raise \<open>IndexError\<close>.
\<close>

definition setitem2 :: "ndarray \<Rightarrow> int \<Rightarrow> int \<Rightarrow> real \<Rightarrow> error + ndarray" where
  "setitem2 arr i j v =
     (case shape arr of
        n0 # n1 # rest \<Rightarrow>
          (case norm_index n0 i of
             None \<Rightarrow> Inl IndexError
           | Some a \<Rightarrow>
               (case norm_index n1 j of
                  None \<Rightarrow> Inl IndexError
                | Some b \<Rightarrow>
                    (let sz = numel rest; start = (a * n1 + b) * sz
                     in Inr (arr\<lparr>elems := take start (elems arr) @ replicate sz v
                                              @ drop (start + sz) (elems arr)\<rparr>))))
      | _ \<Rightarrow> Inl IndexError)"

text \<open>Reading element \<open>arr[a, b, k]\<close> of an array with three axes, and \<open>arr[a, b]\<close> of one with two.\<close>

definition getitem3 :: "ndarray \<Rightarrow> nat \<Rightarrow> nat \<Rightarrow> nat \<Rightarrow> real" where
  "getitem3 arr a b k = elems arr ! ((a * (shape arr ! 1) + b) * (shape arr ! 2) + k)"

definition getitem2 :: "ndarray \<Rightarrow> nat \<Rightarrow> nat \<Rightarrow> real" where
  "getitem2 arr a b = elems arr ! (a * (shape arr ! 1) + b)"

subsection \<open>Floating-point rounding\<close>

text \<open>
  The guards of the three \<open>__call__\<close> methods compare a \<open>float32\<close> tensor
  (\<open>torch.rand(1)\<close>) with a Python float: PyTorch converts the Python float to the
  dtype of the tensor, so the comparison is made with the threshold rounded to
  \<open>float32\<close>.  Python adds two floats in \<open>float64\<close>.  Both roundings are to
  nearest, ties to even, with gradual underflow; overflow to infinity is not modelled
  (a value beyond the largest float stays a large finite real, which decides every
  comparison of this module the same way), and neither is NaN.

  \<open>scale_exponent n x\<close> is the binary exponent of a positive \<open>x\<close>, the integer \<open>e\<close>
  with \<open>2^e \<le> x < 2^(e+1)\<close>, found in at most \<open>n\<close> halvings or doublings.
\<close>

fun scale_exponent :: "nat \<Rightarrow> real \<Rightarrow> int" where
  "scale_exponent 0 x = 0"
| "scale_exponent (Suc n) x =
     (if 2 \<le> x then scale_exponent n (x / 2) + 1
      else if x < 1 then scale_exponent n (x * 2) - 1
      else 0)"

definition pow2 :: "int \<Rightarrow> real" where
  "pow2 k = (if 0 \<le> k then 2 ^ nat k else 1 / 2 ^ nat (- k))"

definition round_half_even :: "real \<Rightarrow> int" where
  "round_half_even x =
     (let f = \<lfloor>x\<rfloor>; d = x - of_int f
      in if d < 1 / 2 then f
         else if 1 / 2 < d then f + 1
         else if even f then f else f + 1)"

text \<open>
  Rounding to the binary format with \<open>p\<close> significant bits and least normal exponent
  \<open>emin\<close>: the result is the multiple of the spacing \<open>2^(e - p + 1)\<close> nearest to \<open>x\<close>.
\<close>

definition round_float :: "nat \<Rightarrow> int \<Rightarrow> real \<Rightarrow> real" where
  "round_float p emin x =
     (if x = 0 then 0
      else
        let e = max emin (scale_exponent 1100 \<bar>x\<bar>);
            q = pow2 (e - int p + 1)
        in of_int (round_half_even (x / q)) * q)"

definition to_float32 :: "real \<Rightarrow> real" where
  "to_float32 x = round_float 24 (- 126) x"

definition float64_add :: "real \<Rightarrow> real \<Rightarrow> real" where
  "float64_add a b = round_float 53 (- 1022) (a + b)"

subsection \<open>Configuration shared by the three dataclasses\<close>

text \<open>
  The dataclasses \<open>CornerPixelBackdoor\<close>, \<open>NoiseBackdoor\<close> and \<open>WanetBackdoor\<close> each
  declare the fields \<open>p_backdoor\<close> and \<open>target_class\<close>; the records below share them
  through a common parent so that the source's field names can be kept.  The base class
  \<open>Transform\<close> (module \<open>_shared\<close>) adds no field that \<open>__call__\<close> reads.  The
  attribute \<open>control_grid\<close> of \<open>WanetBackdoor\<close> is a reference to a tensor.
\<close>

record Backdoor =
  p_backdoor :: real
  target_class :: int

record CornerPixelBackdoor = Backdoor +
  corner :: string

record NoiseBackdoor = Backdoor +
  std :: real

record WanetBackdoor = Backdoor +
  p_noise :: real
  control_grid_width :: int
  warping_strength :: real
  control_grid :: addr

subsection \<open>\<open>CornerPixelBackdoor\<close>\<close>

definition CornerPixelBackdoor_post_init :: "CornerPixelBackdoor \<Rightarrow> error + CornerPixelBackdoor" where
  "CornerPixelBackdoor_post_init self =
     (if \<not> (0 \<le> p_backdoor self \<and> p_backdoor self \<le> 1) then Inl AssertionError
      else if corner self \<notin> set [''top-left'', ''top-right'', ''bottom-left'', ''bottom-right'']
      then Inl AssertionError
      else Inr self)"

text \<open>
  The \<open>if\<close>/\<open>elif\<close> chain of \<open>__call__\<close>, lines 50 to 57: the indices written for each
  corner name.  A name outside the four takes no branch and writes nothing.
\<close>

definition corner_write :: "string \<Rightarrow> ndarray \<Rightarrow> error + ndarray" where
  "corner_write c img =
     (if c = ''top-left'' then setitem2 img 0 0 1
      else if c = ''top-right'' then setitem2 img (-1) 0 1
      else if c = ''bottom-left'' then setitem2 img 0 (-1) 1
      else if c = ''bottom-right'' then setitem2 img (-1) (-1) 1
      else Inr img)"

text \<open>
  The position (index on axis 0, index on axis 1) that lines 50 to 57 write for each of
  the four corner names, on an array with \<open>n0\<close> by \<open>n1\<close> positions: the indices
  \<open>0\<close> and \<open>-1\<close> of the source, counted from the start.
\<close>

definition corner_index :: "string \<Rightarrow> nat \<Rightarrow> nat \<Rightarrow> nat \<times> nat" where
  "corner_index c n0 n1 =
     (if c = ''top-left'' then (0, 0)
      else if c = ''top-right'' then (n0 - 1, 0)
      else if c = ''bottom-left'' then (0, n1 - 1)
      else (n0 - 1, n1 - 1))"

text \<open>
  \<open>__call__\<close>: \<open>r\<close> is the value of \<open>torch.rand(1)\<close>, compared with \<open>p_backdoor\<close>
  in \<open>float32\<close>; \<open>h\<close> is the store, and the sample is the address of the image array
  with its label.  The write goes to the array at that address, and the same address is
  returned.
\<close>

definition CornerPixelBackdoor_call ::
  "CornerPixelBackdoor \<Rightarrow> real \<Rightarrow> store \<Rightarrow> addr \<times> int \<Rightarrow> error + (store \<times> (addr \<times> int))" where
  "CornerPixelBackdoor_call self r h sample =
     (case sample of (img, target) \<Rightarrow>
        if r > to_float32 (p_backdoor self) then Inr (h, (img, target))
        else (case corner_write (corner self) (h img) of
                Inl e \<Rightarrow> Inl e
              | Inr arr \<Rightarrow> Inr (h(img := arr), (img, target_class self))))"

subsection \<open>\<open>NoiseBackdoor\<close>\<close>

definition NoiseBackdoor_post_init :: "NoiseBackdoor \<Rightarrow> error + NoiseBackdoor" where
  "NoiseBackdoor_post_init self =
     (if \<not> (0 \<le> p_backdoor self \<and> p_backdoor self \<le> 1) then Inl AssertionError
      else Inr self)"

text \<open>
  \<open>np.random.normal(0, std, shp)\<close>: an array of shape \<open>shp\<close> whose elements are the
  draws \<open>draw 0, draw 1, ...\<close>; a negative scale raises \<open>ValueError\<close>.
\<close>

definition random_normal :: "(nat \<Rightarrow> real) \<Rightarrow> real \<Rightarrow> nat list \<Rightarrow> error + ndarray" where
  "random_normal draw sd shp =
     (if sd < 0 then Inl ValueError
      else Inr \<lparr>shape = shp, elems = map draw [0..<numel shp]\<rparr>)"

text \<open>Elementwise sum of two arrays of one shape; the result is a new array.\<close>

definition array_add :: "ndarray \<Rightarrow> ndarray \<Rightarrow> ndarray" where
  "array_add x y = \<lparr>shape = shape x, elems = map2 (+) (elems x) (elems y)\<rparr>"

definition NoiseBackdoor_call ::
  "NoiseBackdoor \<Rightarrow> real \<Rightarrow> (nat \<Rightarrow> real) \<Rightarrow> ndarray \<times> int \<Rightarrow> error + (ndarray \<times> int)" where
  "NoiseBackdoor_call self r draw sample =
     (case sample of (img, target) \<Rightarrow>
        if r > to_float32 (p_backdoor self) then Inr (img, target)
        else (case random_normal draw (std self) (shape img) of
                Inl e \<Rightarrow> Inl e
              | Inr noise \<Rightarrow> Inr (array_add img noise, target_class self)))"

subsection \<open>\<open>WanetBackdoor\<close>: tensor operations\<close>

definition torch_rand :: "(nat \<Rightarrow> real) \<Rightarrow> nat list \<Rightarrow> ndarray" where
  "torch_rand u shp = \<lparr>shape = shp, elems = map u [0..<numel shp]\<rparr>"

definition array_map :: "(real \<Rightarrow> real) \<Rightarrow> ndarray \<Rightarrow> ndarray" where
  "array_map f t = t\<lparr>elems := map f (elems t)\<rparr>"

text \<open>\<open>t.abs().mean()\<close>; on an empty tensor torch gives NaN, which the model does not have.\<close>

definition abs_mean :: "ndarray \<Rightarrow> real" where
  "abs_mean t = sum_list (map abs (elems t)) / real (length (elems t))"

text \<open>
  The two library operations \<open>F.interpolate\<close> (bicubic) and \<open>F.grid_sample\<close>
  (bilinear, border padding) belong to PyTorch, not to this repository; the model takes
  the arithmetic of both as parameters.  Either may raise.
\<close>

record torch_ops =
  F_interpolate :: "ndarray \<Rightarrow> nat \<times> nat \<Rightarrow> error + ndarray"
  F_grid_sample :: "ndarray \<Rightarrow> ndarray \<Rightarrow> error + ndarray"

text \<open>
  The element type of the image array.  \<open>torch.tensor(img)\<close> keeps the dtype of the
  numpy array; the control grid, and every field computed from it, is \<open>float32\<close>, the
  dtype of \<open>torch.rand\<close>.
\<close>

datatype dtype = Float32 | Float64 | Int64

text \<open>
  Two of the argument checks that \<open>F.grid_sample\<close> makes before it samples: input and
  grid must have the same dtype and the same batch size (the length of axis 0).  The
  grid passed by \<open>__call__\<close> is \<open>float32\<close>; \<open>dt\<close> is the dtype of the image.
\<close>

definition grid_sample_checked :: "torch_ops \<Rightarrow> dtype \<Rightarrow> ndarray \<Rightarrow> ndarray \<Rightarrow> error + ndarray" where
  "grid_sample_checked ops dt input grid =
     (if dt = Float32 \<and> take 1 (shape input) = take 1 (shape grid)
      then F_grid_sample ops input grid
      else Inl RuntimeError)"

text \<open>\<open>bs, cs, py, px = img.size()\<close>: unpacking fails unless there are four axes.\<close>

definition size4 :: "ndarray \<Rightarrow> error + (nat \<times> nat \<times> nat \<times> nat)" where
  "size4 t = (case shape t of
                [bs, cs, py, px] \<Rightarrow> Inr (bs, cs, py, px)
              | _ \<Rightarrow> Inl ValueError)"

text \<open>\<open>t.movedim(1, -1)\<close>: axis 1 becomes the last axis, the others keep their order.\<close>

definition movedim_1_last :: "ndarray \<Rightarrow> error + ndarray" where
  "movedim_1_last t =
     (case shape t of
        d0 # d1 # rest \<Rightarrow>
          (let m = numel rest
           in Inr \<lparr>shape = d0 # rest @ [d1],
                   elems = [elems t ! ((b * d1 + c) * m + q).
                              b \<leftarrow> [0..<d0], q \<leftarrow> [0..<m], c \<leftarrow> [0..<d1]]\<rparr>)
      | _ \<Rightarrow> Inl IndexError)"

text \<open>\<open>torch.linspace(a, b, n)\<close>.\<close>

definition linspace :: "real \<Rightarrow> real \<Rightarrow> nat \<Rightarrow> real list" where
  "linspace a b n =
     (if n = 1 then [a]
      else map (\<lambda>i. a + real i * ((b - a) / real (n - 1))) [0..<n])"

text \<open>
  Lines 131 to 134: \<open>meshgrid\<close> (indexing \<open>ij\<close>) of the two linspaces, the pair reversed,
  stacked on a new last axis, with a leading axis of length 1.  Entry \<open>[0, i, j]\<close> is
  \<open>(lx[j], ly[i])\<close>.
\<close>

definition identity_field :: "nat \<Rightarrow> nat \<Rightarrow> ndarray" where
  "identity_field py px =
     (let ly = linspace (-1) 1 py; lx = linspace (-1) 1 px
      in \<lparr>shape = [1, py, px, 2],
          elems = concat [[lx ! j, ly ! i]. i \<leftarrow> [0..<py], j \<leftarrow> [0..<px]]\<rparr>)"

text \<open>
  A binary operation between a tensor whose last axis has length 2 and a tensor of
  shape \<open>(2,)\<close> or \<open>(1, 1, 1, 2)\<close>, broadcast over the leading axes: the element at an
  even position meets the first component, the one at an odd position the second.
\<close>

definition broadcast2 :: "(real \<Rightarrow> real \<Rightarrow> real) \<Rightarrow> ndarray \<Rightarrow> real \<times> real \<Rightarrow> ndarray" where
  "broadcast2 f t v =
     t\<lparr>elems := map (\<lambda>i. f (elems t ! i) (if even i then fst v else snd v))
                     [0..<length (elems t)]\<rparr>"

text \<open>Column \<open>c\<close> of \<open>t.view(-1, 2)\<close>, and the reductions \<open>min(0)\<close> and \<open>max(0)\<close> over it.\<close>

definition column :: "nat \<Rightarrow> real list \<Rightarrow> real list" where
  "column c xs = map (\<lambda>i. xs ! (2 * i + c)) [0..<length xs div 2]"

definition list_min :: "real list \<Rightarrow> real" where
  "list_min xs = fold min (tl xs) (hd xs)"

definition list_max :: "real list \<Rightarrow> real" where
  "list_max xs = fold max (tl xs) (hd xs)"

text \<open>
  Lines 121 to 127.  The test \<open>rand_sample < self.p_noise\<close> is made in \<open>float32\<close>.  In
  noise mode the field receives \<open>2 * rand_like - 1\<close> (\<open>v\<close> is the stream of
  \<open>torch.rand_like\<close>) and the label is kept; in adversary mode the label becomes
  \<open>target_class\<close>.
\<close>

definition noise_field :: "(nat \<Rightarrow> real) \<Rightarrow> nat list \<Rightarrow> ndarray" where
  "noise_field v shp = array_map (\<lambda>x. 2 * x - 1) (torch_rand v shp)"

definition warp_mode ::
  "WanetBackdoor \<Rightarrow> real \<Rightarrow> (nat \<Rightarrow> real) \<Rightarrow> ndarray \<Rightarrow> int \<Rightarrow> ndarray \<times> int" where
  "warp_mode self r v warping_field target =
     (if r < to_float32 (p_noise self) then
        (let noise = noise_field v (shape warping_field)
         in (array_add warping_field noise, target))
      else (warping_field, target_class self))"

text \<open>Lines 130 to 136: division by \<open>[py, px]\<close> and addition to the identity field.\<close>

definition relative_field :: "nat \<Rightarrow> nat \<Rightarrow> ndarray \<Rightarrow> error + ndarray" where
  "relative_field py px warping_field =
     (let w = broadcast2 (/) warping_field (real py, real px);
          idf = identity_field py px
      in if shape idf \<noteq> shape w then Inl AssertionError
         else Inr (array_add idf w))"

text \<open>
  Lines 139 to 141, the min-max rescale.  A reduction over no elements raises.  Where a
  coordinate is constant the source divides by zero and produces NaN; the model is only
  meaningful where \<open>w_max > w_min\<close>.
\<close>

definition normalize_field :: "ndarray \<Rightarrow> error + ndarray" where
  "normalize_field warping_field =
     (if elems warping_field = [] then Inl RuntimeError
      else
        let w_min = (list_min (column 0 (elems warping_field)),
                     list_min (column 1 (elems warping_field)));
            w_max = (list_max (column 0 (elems warping_field)),
                     list_max (column 1 (elems warping_field)))
        in Inr (array_map (\<lambda>x. x - 1)
                 (broadcast2 (/)
                    (array_map (\<lambda>x. 2 * x) (broadcast2 (-) warping_field w_min))
                    (fst w_max - fst w_min, snd w_max - snd w_min))))"

subsection \<open>\<open>WanetBackdoor\<close>: the object and the tensor store\<close>

text \<open>
  A torch tensor is an object: \<open>self.control_grid\<close> is a reference to it, and a call
  could change what a later read of the attribute yields either by assigning the
  attribute or by writing into the tensor behind it.  The state of the program is
  therefore the attribute record of \<open>self\<close> together with a store of tensors; \<open>fresh\<close>
  is the first address not in use.  A statement of the source is a function from the
  state to the new state and a result or an exception.
\<close>

record world =
  obj :: WanetBackdoor
  cells :: "addr \<Rightarrow> ndarray"
  fresh :: addr

type_synonym 'a prog = "world \<Rightarrow> world \<times> (error + 'a)"

definition ret :: "'a \<Rightarrow> 'a prog" where
  "ret x s = (s, Inr x)"

definition bind_prog :: "'a prog \<Rightarrow> ('a \<Rightarrow> 'b prog) \<Rightarrow> 'b prog" where
  "bind_prog m f s = (case m s of
                   (s', Inl e) \<Rightarrow> (s', Inl e)
                 | (s', Inr x) \<Rightarrow> f x s')"

text \<open>Reading an attribute of \<open>self\<close>, and reading the tensor behind a reference.\<close>

definition attribute :: "(WanetBackdoor \<Rightarrow> 'a) \<Rightarrow> 'a prog" where
  "attribute f s = (s, Inr (f (obj s)))"

definition deref :: "addr \<Rightarrow> ndarray prog" where
  "deref a s = (s, Inr (cells s a))"

text \<open>
  An operation that returns a new tensor (every tensor operation of \<open>__call__\<close> is of
  this kind: none works in place): the operation may raise; otherwise its result is
  stored at a fresh address, and the reference is returned.
\<close>

definition new_tensor :: "error + ndarray \<Rightarrow> addr prog" where
  "new_tensor m s =
     (case m of
        Inl e \<Rightarrow> (s, Inl e)
      | Inr t \<Rightarrow> (s\<lparr>cells := (cells s)(fresh s := t), fresh := Suc (fresh s)\<rparr>, Inr (fresh s)))"

text \<open>\<open>assert b\<close>, and a pure computation that may raise.\<close>

definition py_assert :: "bool \<Rightarrow> unit prog" where
  "py_assert b s = (s, if b then Inr () else Inl AssertionError)"

definition attempt :: "error + 'a \<Rightarrow> 'a prog" where
  "attempt m s = (s, m)"

text \<open>What a read of \<open>self.control_grid\<close> yields in a state.\<close>

definition control_grid_of :: "world \<Rightarrow> ndarray" where
  "control_grid_of s = cells s (control_grid (obj s))"

text \<open>
  The two together, as the program uses them: the result of a tensor operation is
  stored, and then read through its reference.
\<close>

definition tensor_op :: "error + ndarray \<Rightarrow> ndarray prog" where
  "tensor_op m = bind_prog (new_tensor m) deref"

subsection \<open>\<open>WanetBackdoor\<close>: construction and call\<close>

text \<open>
  \<open>__post_init__\<close> after the dataclass has stored its five fields, on a store whose
  first unused address is \<open>n\<close>; \<open>u\<close> is the stream of \<open>torch.rand\<close>.  Each of the
  three assignments to \<open>self.control_grid\<close> makes a new tensor.  A negative width makes
  \<open>torch.rand\<close> raise before the probabilities are looked at.  Line 103 adds the two
  probabilities as Python floats.
\<close>

definition WanetBackdoor_init ::
  "real \<Rightarrow> real \<Rightarrow> int \<Rightarrow> real \<Rightarrow> int \<Rightarrow> (nat \<Rightarrow> real) \<Rightarrow> store \<Rightarrow> addr
     \<Rightarrow> error + world" where
  "WanetBackdoor_init pb pn w s tc u c n =
     (if w < 0 then Inl RuntimeError
      else
        let control_grid_size = [1, 2, nat w, nat w];
            g0 = array_map (\<lambda>x. 2 * x - 1) (torch_rand u control_grid_size);
            g1 = array_map (\<lambda>x. x / abs_mean g0) g0;
            g2 = array_map (\<lambda>x. x * s) g1
        in if shape g2 \<noteq> control_grid_size then Inl AssertionError
           else
             let p_transform = float64_add pb pn
             in if \<not> (0 \<le> p_transform \<and> p_transform \<le> 1) then Inl AssertionError
                else Inr \<lparr>obj = \<lparr>p_backdoor = pb, target_class = tc, p_noise = pn,
                                 control_grid_width = w, warping_strength = s,
                                 control_grid = n + 2\<rparr>,
                          cells = c(n := g0, n + 1 := g1, n + 2 := g2),
                          fresh = n + 3\<rparr>)"

text \<open>
  \<open>__call__\<close>: \<open>r\<close> is the value of \<open>torch.rand(1)\<close>, \<open>v\<close> the stream of
  \<open>torch.rand_like\<close>, \<open>dt\<close> the dtype of the image array.  \<open>torch.tensor(img)\<close>
  copies the array into a new tensor, and \<open>img.numpy()\<close> converts back; both keep shape
  and elements.  The guard of line 112 adds the probabilities in \<open>float64\<close> and compares
  in \<open>float32\<close>.  In adversary mode line 127 leaves the field as it is; the model
  stores it again, at a fresh address.
\<close>

definition WanetBackdoor_call ::
  "torch_ops \<Rightarrow> real \<Rightarrow> (nat \<Rightarrow> real) \<Rightarrow> dtype \<Rightarrow> ndarray \<times> int \<Rightarrow> (ndarray \<times> int) prog" where
  "WanetBackdoor_call ops r v dt sample =
     (case sample of (img_array, target) \<Rightarrow>
        bind_prog (tensor_op (Inr img_array)) (\<lambda>img.
        bind_prog (attempt (size4 img)) (\<lambda>(bs, cs, py, px).
        bind_prog (attribute p_backdoor) (\<lambda>pb.
        bind_prog (attribute p_noise) (\<lambda>pn.
          if r \<le> to_float32 (float64_add pb pn) then
            bind_prog (attribute control_grid) (\<lambda>g.
            bind_prog (deref g) (\<lambda>grid.
            bind_prog (tensor_op (F_interpolate ops grid (py, px))) (\<lambda>w0.
            bind_prog (tensor_op (movedim_1_last w0)) (\<lambda>w1.
            bind_prog (py_assert (shape w1 = [1, py, px, 2])) (\<lambda>_.
            bind_prog (attribute (\<lambda>self. warp_mode self r v w1 target)) (\<lambda>(w2', target').
            bind_prog (tensor_op (Inr w2')) (\<lambda>w2.
            bind_prog (tensor_op (relative_field py px w2)) (\<lambda>w3.
            bind_prog (tensor_op (normalize_field w3)) (\<lambda>w4.
            bind_prog (py_assert (shape w4 = [1, py, px, 2])) (\<lambda>_.
            bind_prog (tensor_op (grid_sample_checked ops dt img w4)) (\<lambda>out.
            bind_prog (py_assert (shape out = [bs, cs, py, px])) (\<lambda>_.
            ret (out, target')))))))))))))
          else ret (img, target))))))"

text \<open>A run of calls on one transform: each call starts in the state the last one left.\<close>

fun WanetBackdoor_run ::
  "torch_ops \<Rightarrow> (real \<times> (nat \<Rightarrow> real) \<times> dtype \<times> (ndarray \<times> int)) list \<Rightarrow> world \<Rightarrow> world" where
  "WanetBackdoor_run ops [] s = s"
| "WanetBackdoor_run ops (c # cs) s =
     (case c of (r, v, dt, sample) \<Rightarrow>
        WanetBackdoor_run ops cs (fst (WanetBackdoor_call ops r v dt sample s)))"

text \<open>
  A program keeps what exists when it leaves the attributes of \<open>self\<close> as they are,
  releases no address, and leaves the tensor at every address in use as it is.
\<close>

definition keeps_existing :: "'a prog \<Rightarrow> bool" where
  "keeps_existing m \<longleftrightarrow>
     (\<forall>s a. obj (fst (m s)) = obj s \<and> fresh s \<le> fresh (fst (m s))
            \<and> (a < fresh s \<longrightarrow> cells (fst (m s)) a = cells s a))"

subsection \<open>An instance of the library operations\<close>

text \<open>
  To run the model on examples the two library operations are instantiated by their
  nearest-neighbour versions, with PyTorch's shape rules: \<open>interpolate\<close> needs a
  four-axis input and non-empty sizes, \<open>grid_sample\<close> a four-axis input with non-empty
  spatial axes and a four-axis grid whose last axis has length 2.
\<close>

definition nearest_interpolate :: "ndarray \<Rightarrow> nat \<times> nat \<Rightarrow> error + ndarray" where
  "nearest_interpolate t sz =
     (case sz of (h, w) \<Rightarrow>
        (case shape t of
           [n, c, k1, k2] \<Rightarrow>
             if k1 = 0 \<or> k2 = 0 \<or> h = 0 \<or> w = 0 then Inl RuntimeError
             else Inr \<lparr>shape = [n, c, h, w],
                       elems = [elems t ! (((b * c + ch) * k1 + (i * k1) div h) * k2 + (j * k2) div w).
                                  b \<leftarrow> [0..<n], ch \<leftarrow> [0..<c], i \<leftarrow> [0..<h], j \<leftarrow> [0..<w]]\<rparr>
         | _ \<Rightarrow> Inl RuntimeError))"

definition nearest_pixel :: "nat \<Rightarrow> real \<Rightarrow> nat" where
  "nearest_pixel n x = nat (min (int n - 1) (max 0 (round (((x + 1) * real n - 1) / 2))))"

definition nearest_grid_sample :: "ndarray \<Rightarrow> ndarray \<Rightarrow> error + ndarray" where
  "nearest_grid_sample t g =
     (case shape t of
        [n, c, h, w] \<Rightarrow>
          (case shape g of
             [n', ho, wo, two] \<Rightarrow>
               if two = 2 \<and> 0 < h \<and> 0 < w
               then Inr \<lparr>shape = [n, c, ho, wo],
                         elems = [elems t ! (((b * c + ch) * h
                                      + nearest_pixel h (elems g ! (((b * ho + i) * wo + j) * 2 + 1))) * w
                                      + nearest_pixel w (elems g ! (((b * ho + i) * wo + j) * 2))).
                                    b \<leftarrow> [0..<n], ch \<leftarrow> [0..<c], i \<leftarrow> [0..<ho], j \<leftarrow> [0..<wo]]\<rparr>
               else Inl RuntimeError
           | _ \<Rightarrow> Inl RuntimeError)
      | _ \<Rightarrow> Inl RuntimeError)"

definition nearest_ops :: torch_ops where
  "nearest_ops = \<lparr>F_interpolate = nearest_interpolate, F_grid_sample = nearest_grid_sample\<rparr>"

subsection \<open>Running the transforms on examples\<close>

text \<open>
  \<open>CornerPixelBackdoor.__call__\<close> on a store that holds the image at address 0.  The
  result lists the array the caller still holds at that address after the call, the
  array behind the returned reference, and the returned label.
\<close>

definition CornerPixelBackdoor_apply ::
  "CornerPixelBackdoor \<Rightarrow> real \<Rightarrow> ndarray \<times> int \<Rightarrow> error + (ndarray \<times> ndarray \<times> int)" where
  "CornerPixelBackdoor_apply self r sample =
     (case sample of (img, target) \<Rightarrow>
        (case CornerPixelBackdoor_call self r (\<lambda>_. img) (0, target) of
           Inl e \<Rightarrow> Inl e
         | Inr (h, a, t) \<Rightarrow> Inr (h 0, h a, t)))"

text \<open>
  A store with nothing in use, and the state that \<open>WanetBackdoor(0.5, 0.25, 2, 4.5, 7)\<close>
  leaves on it when \<open>torch.rand\<close> draws \<open>0, 0.1, ..., 0.7\<close>: the grid sits at address 2.
  The image is a batch of one two-channel image of 2 by 3 pixels.
\<close>

definition empty_store :: store where
  "empty_store = (\<lambda>_. \<lparr>shape = [0], elems = []\<rparr>)"

definition example_world :: world where
  "example_world =
     \<lparr>obj = \<lparr>p_backdoor = 1 / 2, target_class = 7, p_noise = 1 / 4,
              control_grid_width = 2, warping_strength = 9 / 2, control_grid = 2\<rparr>,
      cells = empty_store
        (0 := \<lparr>shape = [1, 2, 2, 2], elems = [- 1, - (4 / 5), - (3 / 5), - (2 / 5), - (1 / 5), 0, 1 / 5, 2 / 5]\<rparr>,
         1 := \<lparr>shape = [1, 2, 2, 2], elems = [- (20 / 9), - (16 / 9), - (4 / 3), - (8 / 9), - (4 / 9), 0, 4 / 9, 8 / 9]\<rparr>,
         2 := \<lparr>shape = [1, 2, 2, 2], elems = [- 10, - 8, - 6, - 4, - 2, 0, 2, 4]\<rparr>),
      fresh = 3\<rparr>"

definition example_image :: ndarray where
  "example_image = \<lparr>shape = [1, 2, 2, 3], elems = [1, 2, 3, 4, 5, 6, 7, 8, 9, 10, 11, 12]\<rparr>"

text \<open>
  The map that lines 139 to 141 apply to one coordinate whose minimum is \<open>lo\<close> and
  maximum \<open>hi\<close>.
\<close>

definition rescale :: "real \<Rightarrow> real \<Rightarrow> real \<Rightarrow> real" where
  "rescale lo hi x = 2 * (x - lo) / (hi - lo) - 1"

section \<open>Properties\<close>

subsection \<open>Rounding\<close>

lemma round_float_zero [simp]: "round_float p emin 0 = 0"
  by (simp add: round_float_def)

lemma to_float32_zero: "to_float32 0 = 0"
  by (simp add: to_float32_def)

lemma scale_exponent_small: "x < 2 \<Longrightarrow> scale_exponent n x \<le> 0"
proof (induction n arbitrary: x)
  case 0
  then show ?case by simp
next
  case (Suc n)
  show ?case
  proof (cases "x < 1")
    case True
    then have "scale_exponent n (x * 2) \<le> 0"
      by (intro Suc.IH) simp
    with True Suc.prems show ?thesis by simp
  next
    case False
    with Suc.prems show ?thesis by simp
  qed
qed

lemma pow2_pos: "0 < pow2 k"
  by (simp add: pow2_def)

lemma round_half_even_mono_int:
  "x \<le> of_int n \<Longrightarrow> round_half_even x \<le> n"
  "of_int n \<le> x \<Longrightarrow> n \<le> round_half_even x"
  unfolding round_half_even_def Let_def
  by (auto simp add: not_less) linarith+

text \<open>
  Rounding keeps a value between 0 and 1 between 0 and 1: both bounds are floats.
\<close>

lemma round_float_unit_interval:
  assumes "0 \<le> x" and "x \<le> 1" and "emin \<le> 0" and "0 < p"
  shows "0 \<le> round_float p emin x \<and> round_float p emin x \<le> 1"
proof (cases "x = 0")
  case True
  then show ?thesis by simp
next
  case False
  let ?e = "max emin (scale_exponent 1100 \<bar>x\<bar>)"
  let ?k = "?e - int p + 1"
  let ?q = "pow2 ?k"
  have "scale_exponent 1100 \<bar>x\<bar> \<le> 0"
    using assms(1,2) by (intro scale_exponent_small) simp
  then have k: "?k \<le> 0"
    using assms(3,4) by simp
  then have q: "?q = 1 / 2 ^ nat (- ?k)"
    using assms(4) by (auto simp add: pow2_def)
  have qpos: "0 < ?q" by (rule pow2_pos)
  have "x / ?q \<le> of_int (2 ^ nat (- ?k))"
    using assms(2) by (simp add: q)
  then have up: "round_half_even (x / ?q) \<le> 2 ^ nat (- ?k)"
    by (rule round_half_even_mono_int(1))
  have "of_int 0 \<le> x / ?q"
    using assms(1) qpos by simp
  then have lo: "0 \<le> round_half_even (x / ?q)"
    by (rule round_half_even_mono_int(2))
  have "of_int (round_half_even (x / ?q)) * ?q \<le> of_int (2 ^ nat (- ?k)) * ?q"
    using up qpos by (intro mult_right_mono) (simp_all add: of_int_le_iff del: of_int_power)
  also have "\<dots> = 1"
    by (simp add: q)
  finally have "of_int (round_half_even (x / ?q)) * ?q \<le> 1" .
  moreover have "0 \<le> of_int (round_half_even (x / ?q)) * ?q"
    using lo qpos by simp
  ultimately show ?thesis
    using False by (simp add: round_float_def Let_def)
qed

lemma float64_add_unit_interval:
  "0 \<le> a + b \<Longrightarrow> a + b \<le> 1 \<Longrightarrow> 0 \<le> float64_add a b \<and> float64_add a b \<le> 1"
  unfolding float64_add_def by (rule round_float_unit_interval) simp_all

subsection \<open>The write of the corner-pixel transform\<close>

lemma block_index_less:
  fixes p q sz k :: nat
  assumes "p < q" and "k < sz"
  shows "p * sz + k < q * sz"
proof -
  have "p * sz + k < p * sz + sz" using assms(2) by simp
  also have "\<dots> = Suc p * sz" by simp
  also have "\<dots> \<le> q * sz" using assms(1) by (intro mult_le_mono1) simp
  finally show ?thesis .
qed

lemma block_write_nth:
  fixes xs :: "'a list"
  assumes "q * sz + sz \<le> length xs" and "p * sz + k < length xs" and "k < sz"
  shows "(take (q * sz) xs @ replicate sz v @ drop (q * sz + sz) xs) ! (p * sz + k)
           = (if p = q then v else xs ! (p * sz + k))"
proof -
  have len: "length (take (q * sz) xs) = q * sz"
    using assms(1) by simp
  consider "p < q" | "p = q" | "q < p" by linarith
  then show ?thesis
  proof cases
    case 1
    then have "p * sz + k < q * sz" using assms(3) by (rule block_index_less)
    with 1 len show ?thesis by (simp add: nth_append)
  next
    case 2
    with len assms(3) show ?thesis by (simp add: nth_append)
  next
    case 3
    then have "q * sz + sz \<le> p * sz"
      using mult_le_mono1 [of "Suc q" p sz] by simp
    then obtain d where d: "p * sz = q * sz + sz + d"
      using le_Suc_ex by blast
    have "(take (q * sz) xs @ replicate sz v @ drop (q * sz + sz) xs) ! (q * sz + (sz + (d + k)))
            = xs ! (q * sz + sz + (d + k))"
      using len assms(1) by (simp only: nth_append_length_plus [of "take (q * sz) xs", unfolded len]
          nth_append_length_plus [of "replicate sz v", unfolded length_replicate])
        (simp add: add.assoc)
    with 3 d show ?thesis by (simp add: add.assoc)
  qed
qed

lemma norm_index_first: "0 < n \<Longrightarrow> norm_index n 0 = Some 0"
  by (simp add: norm_index_def)

lemma norm_index_last: "0 < n \<Longrightarrow> norm_index n (- 1) = Some (n - 1)"
  by (auto simp add: norm_index_def Let_def)

lemma setitem2_writes_block:
  assumes wf: "wf_array arr" and sh: "shape arr = n0 # n1 # rest"
    and i: "norm_index n0 i = Some a" and j: "norm_index n1 j = Some b"
  shows "\<exists>arr'. setitem2 arr i j v = Inr arr' \<and> shape arr' = shape arr \<and> wf_array arr'
           \<and> (\<forall>p k. p < n0 * n1 \<longrightarrow> k < numel rest \<longrightarrow>
                  elems arr' ! (p * numel rest + k)
                    = (if p = a * n1 + b then v else elems arr ! (p * numel rest + k)))"
proof -
  let ?sz = "numel rest" and ?q = "a * n1 + b" and ?xs = "elems arr"
  let ?ys = "take (?q * ?sz) ?xs @ replicate ?sz v @ drop (?q * ?sz + ?sz) ?xs"
  have a: "a < n0" and b: "b < n1"
    using i j by (auto simp add: norm_index_def Let_def split: if_splits)
  have len: "length ?xs = n0 * n1 * ?sz"
    using wf sh by (simp add: wf_array_def numel_def mult.assoc)
  have q: "?q < n0 * n1"
    using a b by (rule block_index_less)
  then have "Suc ?q * ?sz \<le> n0 * n1 * ?sz"
    by (intro mult_le_mono1) simp
  then have fit: "?q * ?sz + ?sz \<le> length ?xs"
    using len by simp
  have eq: "setitem2 arr i j v = Inr (arr\<lparr>elems := ?ys\<rparr>)"
    using sh i j by (simp add: setitem2_def Let_def)
  have "elems (arr\<lparr>elems := ?ys\<rparr>) ! (p * ?sz + k)
          = (if p = ?q then v else ?xs ! (p * ?sz + k))"
    if "p < n0 * n1" and "k < ?sz" for p k
  proof -
    have "p * ?sz + k < n0 * n1 * ?sz"
      using that by (rule block_index_less)
    then show ?thesis
      using block_write_nth [OF fit _ that(2), of p v] len by simp
  qed
  moreover have "wf_array (arr\<lparr>elems := ?ys\<rparr>)"
    using wf fit by (simp add: wf_array_def)
  ultimately show ?thesis
    using eq by simp
qed

text \<open>
  What a triggered call of the corner-pixel transform does on an array with at least
  two non-empty axes: it returns the reference it was given with \<open>target_class\<close>, and
  in the array behind it the position \<open>corner_index\<close> holds 1 on all trailing axes
  while every other position holds what it held before.
\<close>

lemma CornerPixelBackdoor_call_writes_one_pixel:
  assumes fire: "r \<le> to_float32 (p_backdoor self)"
    and c: "corner self \<in> set [''top-left'', ''top-right'', ''bottom-left'', ''bottom-right'']"
    and wf: "wf_array (h a)" and sh: "shape (h a) = n0 # n1 # rest"
    and pos: "0 < n0" "0 < n1"
  shows "\<exists>arr'. CornerPixelBackdoor_call self r h (a, target)
                  = Inr (h(a := arr'), (a, target_class self))
           \<and> shape arr' = shape (h a) \<and> wf_array arr'
           \<and> (\<forall>x y k. x < n0 \<longrightarrow> y < n1 \<longrightarrow> k < numel rest \<longrightarrow>
                  elems arr' ! ((x * n1 + y) * numel rest + k)
                    = (if (x, y) = corner_index (corner self) n0 n1 then 1
                       else elems (h a) ! ((x * n1 + y) * numel rest + k)))"
proof -
  obtain i j where ij: "corner_write (corner self) (h a) = setitem2 (h a) i j 1"
    and ni: "norm_index n0 i = Some (fst (corner_index (corner self) n0 n1))"
    and nj: "norm_index n1 j = Some (snd (corner_index (corner self) n0 n1))"
    using c pos
    by (auto simp add: corner_write_def corner_index_def norm_index_first norm_index_last)
  let ?a = "fst (corner_index (corner self) n0 n1)"
  let ?b = "snd (corner_index (corner self) n0 n1)"
  from setitem2_writes_block [OF wf sh ni nj, of 1]
  obtain arr' where w: "setitem2 (h a) i j 1 = Inr arr'" "shape arr' = shape (h a)"
    "wf_array arr'"
    and el: "\<And>p k. p < n0 * n1 \<Longrightarrow> k < numel rest \<Longrightarrow>
               elems arr' ! (p * numel rest + k)
                 = (if p = ?a * n1 + ?b then 1 else elems (h a) ! (p * numel rest + k))"
    by blast
  have ab: "?a < n0" "?b < n1"
    using ni nj by (auto simp add: norm_index_def Let_def split: if_splits)
  have "elems arr' ! ((x * n1 + y) * numel rest + k)
          = (if (x, y) = corner_index (corner self) n0 n1 then 1
             else elems (h a) ! ((x * n1 + y) * numel rest + k))"
    if "x < n0" "y < n1" "k < numel rest" for x y k
  proof -
    have "x * n1 + y < n0 * n1"
      using that(1,2) by (rule block_index_less)
    moreover have "x * n1 + y = ?a * n1 + ?b \<longleftrightarrow> (x, y) = corner_index (corner self) n0 n1"
    proof
      assume e: "x * n1 + y = ?a * n1 + ?b"
      have "(x * n1 + y) div n1 = x" "(x * n1 + y) mod n1 = y"
        using that(2) by simp_all
      moreover have "(?a * n1 + ?b) div n1 = ?a" "(?a * n1 + ?b) mod n1 = ?b"
        using ab(2) by simp_all
      ultimately have "x = ?a" "y = ?b" using e by simp_all
      then show "(x, y) = corner_index (corner self) n0 n1" by simp
    next
      assume "(x, y) = corner_index (corner self) n0 n1"
      then have "x = ?a" "y = ?b" by (metis fst_conv, metis snd_conv)
      then show "x * n1 + y = ?a * n1 + ?b" by simp
    qed
    ultimately show ?thesis
      using el [of "x * n1 + y" k] that(3) by simp
  qed
  moreover have "CornerPixelBackdoor_call self r h (a, target)
                   = Inr (h(a := arr'), (a, target_class self))"
    using fire ij w(1) by (simp add: CornerPixelBackdoor_call_def)
  ultimately show ?thesis
    using w(2,3) by blast
qed

subsection \<open>The min-max rescale\<close>

lemma list_min_Min:
  assumes "xs \<noteq> []"
  shows "list_min xs = Min (set xs)"
proof (cases xs)
  case Nil
  with assms show ?thesis by simp
next
  case (Cons a list)
  then show ?thesis
    using Min.set_eq_fold [of a list] by (simp add: list_min_def)
qed

lemma list_max_Max:
  assumes "xs \<noteq> []"
  shows "list_max xs = Max (set xs)"
proof (cases xs)
  case Nil
  with assms show ?thesis by simp
next
  case (Cons a list)
  then show ?thesis
    using Max.set_eq_fold [of a list] by (simp add: list_max_def)
qed

lemma list_min_map_mono:
  assumes "mono f" and "xs \<noteq> []"
  shows "list_min (map f xs) = f (list_min xs)"
proof -
  have "Min (f ` set xs) = f (Min (set xs))"
    using mono_Min_commute [OF assms(1), of "set xs"] assms(2) by simp
  then show ?thesis using assms(2) by (simp add: list_min_Min)
qed

lemma list_max_map_mono:
  assumes "mono f" and "xs \<noteq> []"
  shows "list_max (map f xs) = f (list_max xs)"
proof -
  have "Max (f ` set xs) = f (Max (set xs))"
    using mono_Max_commute [OF assms(1), of "set xs"] assms(2) by simp
  then show ?thesis using assms(2) by (simp add: list_max_Max)
qed

lemma rescale_mono: "lo < hi \<Longrightarrow> mono (rescale lo hi)"
  by (rule monoI) (simp add: rescale_def divide_le_cancel)

lemma rescale_lo: "rescale lo hi lo = - 1"
  by (simp add: rescale_def)

lemma rescale_hi: "lo < hi \<Longrightarrow> rescale lo hi hi = 1"
  by (simp add: rescale_def field_simps)

lemma normalize_field_elems:
  assumes "elems w \<noteq> []"
  shows "normalize_field w = Inr (w\<lparr>elems :=
           map (\<lambda>i. rescale (list_min (column (i mod 2) (elems w)))
                             (list_max (column (i mod 2) (elems w))) (elems w ! i))
               [0..<length (elems w)]\<rparr>)"
  using assms
  by (auto simp add: normalize_field_def broadcast2_def array_map_def rescale_def Let_def
      even_iff_mod_2_eq_zero odd_iff_mod_2_eq_one)

lemma column_normalized:
  assumes "c < 2"
  shows "column c (map (\<lambda>i. rescale (lo (i mod 2)) (hi (i mod 2)) (xs ! i)) [0..<length xs])
         = map (rescale (lo c) (hi c)) (column c xs)"
proof -
  have "\<And>i. i < length xs div 2 \<Longrightarrow> 2 * i + c < length xs"
    using assms by linarith
  moreover have "\<And>i. (2 * i + c) mod 2 = c"
    using assms by simp
  ultimately show ?thesis
    by (simp add: column_def)
qed

subsection \<open>Programs on the tensor store\<close>

lemma bind_ret [simp]: "bind_prog (ret x) f s = f x s"
  by (simp add: bind_prog_def ret_def)

lemma bind_attribute [simp]: "bind_prog (attribute g) f s = f (g (obj s)) s"
  by (simp add: bind_prog_def attribute_def)

lemma bind_deref [simp]: "bind_prog (deref a) f s = f (cells s a) s"
  by (simp add: bind_prog_def deref_def)

lemma bind_attempt [simp]:
  "bind_prog (attempt m) f s = (case m of Inl e \<Rightarrow> (s, Inl e) | Inr x \<Rightarrow> f x s)"
  by (simp add: bind_prog_def attempt_def split: sum.splits)

lemma bind_py_assert [simp]:
  "bind_prog (py_assert b) f s = (if b then f () s else (s, Inl AssertionError))"
  by (simp add: bind_prog_def py_assert_def)

lemma bind_tensor_op [simp]:
  "bind_prog (tensor_op m) f s =
     (case m of
        Inl e \<Rightarrow> (s, Inl e)
      | Inr t \<Rightarrow> f t (s\<lparr>cells := (cells s)(fresh s := t), fresh := Suc (fresh s)\<rparr>))"
  by (simp add: bind_prog_def tensor_op_def new_tensor_def deref_def split: sum.splits)

lemma keeps_ret: "keeps_existing (ret x)"
  by (simp add: keeps_existing_def ret_def)

lemma keeps_attribute: "keeps_existing (attribute g)"
  by (simp add: keeps_existing_def attribute_def)

lemma keeps_deref: "keeps_existing (deref a)"
  by (simp add: keeps_existing_def deref_def)

lemma keeps_attempt: "keeps_existing (attempt m)"
  by (simp add: keeps_existing_def attempt_def)

lemma keeps_py_assert: "keeps_existing (py_assert b)"
  by (simp add: keeps_existing_def py_assert_def)

lemma keeps_new_tensor: "keeps_existing (new_tensor m)"
  by (cases m) (simp_all add: keeps_existing_def new_tensor_def)

text \<open>
  The property belongs to the program, not to the type of states: a write into a
  tensor that exists does not have it.
\<close>

lemma in_place_write_not_kept:
  "\<not> keeps_existing (\<lambda>s. (s\<lparr>cells := (cells s)(0 := \<lparr>shape = [1], elems = [1]\<rparr>)\<rparr>, Inr ()))"
proof
  let ?s = "\<lparr>obj = obj example_world, cells = (\<lambda>_. \<lparr>shape = [1], elems = [0]\<rparr>), fresh = 1\<rparr>"
  assume "keeps_existing (\<lambda>s. (s\<lparr>cells := (cells s)(0 := \<lparr>shape = [1], elems = [1]\<rparr>)\<rparr>, Inr ()))"
  then have "\<forall>a. a < fresh ?s \<longrightarrow>
      cells (?s\<lparr>cells := (cells ?s)(0 := \<lparr>shape = [1], elems = [1]\<rparr>)\<rparr>) a = cells ?s a"
    by (auto simp add: keeps_existing_def dest!: spec [of _ ?s])
  then have "cells (?s\<lparr>cells := (cells ?s)(0 := \<lparr>shape = [1], elems = [1]\<rparr>)\<rparr>) 0 = cells ?s 0"
    by (auto dest!: spec [of _ "0::nat"])
  then show False
    by simp
qed

lemma keeps_bind:
  assumes "keeps_existing m" and "\<And>x. keeps_existing (f x)"
  shows "keeps_existing (bind_prog m f)"
  unfolding keeps_existing_def
proof (intro allI)
  fix s a
  obtain s1 y where m: "m s = (s1, y)"
    by (cases "m s")
  have m1: "obj s1 = obj s" "fresh s \<le> fresh s1" "a < fresh s \<Longrightarrow> cells s1 a = cells s a"
    using assms(1) m by (auto simp add: keeps_existing_def dest: spec [of _ s])
  show "obj (fst (bind_prog m f s)) = obj s \<and> fresh s \<le> fresh (fst (bind_prog m f s))
          \<and> (a < fresh s \<longrightarrow> cells (fst (bind_prog m f s)) a = cells s a)"
  proof (cases y)
    case (Inl e)
    with m m1 show ?thesis by (simp add: bind_prog_def)
  next
    case (Inr x)
    have "obj (fst (f x s1)) = obj s1" "fresh s1 \<le> fresh (fst (f x s1))"
      "a < fresh s1 \<Longrightarrow> cells (fst (f x s1)) a = cells s1 a"
      using assms(2) [of x] by (auto simp add: keeps_existing_def)
    with Inr m m1 show ?thesis by (auto simp add: bind_prog_def)
  qed
qed

lemma keeps_tensor_op: "keeps_existing (tensor_op m)"
  unfolding tensor_op_def by (intro keeps_bind keeps_new_tensor keeps_deref)

lemma keeps_if:
  "(b \<Longrightarrow> keeps_existing m) \<Longrightarrow> (\<not> b \<Longrightarrow> keeps_existing n) \<Longrightarrow> keeps_existing (if b then m else n)"
  by simp

lemma keeps_case_prod:
  "(\<And>a b. keeps_existing (f a b)) \<Longrightarrow> keeps_existing (case p of (a, b) \<Rightarrow> f a b)"
  by (cases p) simp

lemma keeps_WanetBackdoor_call: "keeps_existing (WanetBackdoor_call ops r v dt sample)"
  unfolding WanetBackdoor_call_def
  by (intro keeps_case_prod keeps_bind keeps_if keeps_tensor_op keeps_attempt keeps_attribute
      keeps_deref keeps_py_assert keeps_ret)

lemma WanetBackdoor_call_keeps_grid:
  assumes "control_grid (obj s) < fresh s"
  shows "control_grid_of (fst (WanetBackdoor_call ops r v dt sample s)) = control_grid_of s"
    and "control_grid (obj (fst (WanetBackdoor_call ops r v dt sample s)))
           < fresh (fst (WanetBackdoor_call ops r v dt sample s))"
proof -
  let ?s' = "fst (WanetBackdoor_call ops r v dt sample s)"
  have k: "obj ?s' = obj s" "fresh s \<le> fresh ?s'"
    "cells ?s' (control_grid (obj s)) = cells s (control_grid (obj s))"
    using keeps_WanetBackdoor_call [of ops r v dt sample] assms
    by (auto simp add: keeps_existing_def)
  show "control_grid_of ?s' = control_grid_of s"
    using k by (simp add: control_grid_of_def)
  show "control_grid (obj ?s') < fresh ?s'"
    using k assms by simp
qed

lemma WanetBackdoor_run_keeps_grid:
  assumes "control_grid (obj s) < fresh s"
  shows "control_grid_of (WanetBackdoor_run ops cs s) = control_grid_of s"
  using assms
proof (induction cs arbitrary: s)
  case Nil
  then show ?case by simp
next
  case (Cons c cs)
  obtain r v dt sample where c: "c = (r, v, dt, sample)"
    by (cases c) auto
  let ?s' = "fst (WanetBackdoor_call ops r v dt sample s)"
  have "control_grid_of (WanetBackdoor_run ops cs ?s') = control_grid_of ?s'"
    by (rule Cons.IH) (rule WanetBackdoor_call_keeps_grid(2) [OF Cons.prems])
  then show ?case
    using c WanetBackdoor_call_keeps_grid(1) [OF Cons.prems, of ops r v dt sample] by simp
qed

lemma WanetBackdoor_init_grid:
  assumes "WanetBackdoor_init pb pn w s tc u c n = Inr s0"
  shows "0 \<le> w" and "control_grid_width (obj s0) = w"
    and "shape (control_grid_of s0) = [1, 2, nat w, nat w]"
    and "length (elems (control_grid_of s0)) = 2 * nat w * nat w"
    and "control_grid (obj s0) < fresh s0"
  using assms
  by (auto simp add: WanetBackdoor_init_def Let_def array_map_def torch_rand_def numel_def
      control_grid_of_def split: if_splits)

subsection \<open>The value of a call\<close>

text \<open>
  A call that returns in the triggered branch has gone through every step: the names
  below are the tensors of the source after lines 118, 127, 136, 141 and 150.
\<close>

lemma WanetBackdoor_call_triggered:
  assumes inv: "control_grid (obj s) < fresh s"
    and trig: "r \<le> to_float32 (float64_add (p_backdoor (obj s)) (p_noise (obj s)))"
    and res: "snd (WanetBackdoor_call ops r v dt (img, target) s) = Inr (img', target')"
  shows "\<exists>bs cs py px w0 w1 w3 w4.
           shape img = [bs, cs, py, px]
         \<and> F_interpolate ops (control_grid_of s) (py, px) = Inr w0
         \<and> movedim_1_last w0 = Inr w1 \<and> shape w1 = [1, py, px, 2]
         \<and> relative_field py px (fst (warp_mode (obj s) r v w1 target)) = Inr w3
         \<and> normalize_field w3 = Inr w4 \<and> shape w4 = [1, py, px, 2]
         \<and> grid_sample_checked ops dt img w4 = Inr img'
         \<and> shape img' = [bs, cs, py, px]
         \<and> target' = snd (warp_mode (obj s) r v w1 target)"
proof -
  have g: "control_grid (obj s) \<noteq> fresh s"
    using inv by simp
  from res obtain q where q: "size4 img = Inr q"
    by (auto simp add: WanetBackdoor_call_def split: sum.splits)
  obtain bs cs py px where qq: "q = (bs, cs, py, px)"
    by (cases q) auto
  have sh: "shape img = [bs, cs, py, px]"
    using q qq by (auto simp add: size4_def split: list.splits)
  show ?thesis
    using res q qq trig g sh
    by (auto simp add: WanetBackdoor_call_def control_grid_of_def ret_def
        split: sum.splits if_splits prod.splits)
qed


lemma WanetBackdoor_call_identity:
  assumes "shape img = [bs, cs, py, px]"
    and "to_float32 (float64_add (p_backdoor (obj s)) (p_noise (obj s))) < r"
  shows "snd (WanetBackdoor_call ops r v dt (img, target) s) = Inr (img, target)"
  using assms by (simp add: WanetBackdoor_call_def size4_def ret_def)

lemma WanetBackdoor_call_size4:
  assumes "snd (WanetBackdoor_call ops r v dt (img, target) s) = Inr y"
  shows "\<exists>bs cs py px. shape img = [bs, cs, py, px]"
proof -
  from assms obtain q where "size4 img = Inr q"
    by (auto simp add: WanetBackdoor_call_def split: sum.splits)
  then show ?thesis
    by (auto simp add: size4_def split: list.splits)
qed

text \<open>Whenever a call returns, the image it returns has the shape of the input.\<close>

lemma WanetBackdoor_call_shape:
  assumes inv: "control_grid (obj s) < fresh s"
    and res: "snd (WanetBackdoor_call ops r v dt (img, target) s) = Inr (img', target')"
  shows "length (shape img) = 4 \<and> shape img' = shape img"
proof (cases "r \<le> to_float32 (float64_add (p_backdoor (obj s)) (p_noise (obj s)))")
  case True
  from WanetBackdoor_call_triggered [OF inv True res] show ?thesis
    by auto
next
  case False
  from WanetBackdoor_call_size4 [OF res] obtain bs cs py px
    where sh: "shape img = [bs, cs, py, px]" by auto
  from WanetBackdoor_call_identity [OF sh, of s r ops v dt target] False res sh
  show ?thesis by simp
qed

text \<open>
  In the triggered branch a batch of any size but 1, or an image that is not
  \<open>float32\<close>, never comes back: \<open>F.grid_sample\<close> rejects the pair of image and grid,
  unless an earlier step has raised already.
\<close>

lemma WanetBackdoor_call_rejects:
  assumes inv: "control_grid (obj s) < fresh s"
    and trig: "r \<le> to_float32 (float64_add (p_backdoor (obj s)) (p_noise (obj s)))"
    and sh: "shape img = [bs, cs, py, px]"
    and bad: "bs \<noteq> 1 \<or> dt \<noteq> Float32"
  shows "\<exists>e. snd (WanetBackdoor_call ops r v dt (img, target) s) = Inl e"
proof (cases "snd (WanetBackdoor_call ops r v dt (img, target) s)")
  case (Inl e)
  then show ?thesis by simp
next
  case (Inr y)
  obtain img' target' where "y = (img', target')"
    by (cases y)
  with Inr WanetBackdoor_call_triggered [OF inv trig, of ops v dt img target img' target']
  obtain w4 where "shape w4 = [1, py, px, 2]" "grid_sample_checked ops dt img w4 = Inr img'"
    using sh by auto
  with sh bad show ?thesis
    by (auto simp add: grid_sample_checked_def split: if_splits)
qed

lemma length_concat_blocks:
  "(\<And>ys. ys \<in> set yss \<Longrightarrow> length ys = n) \<Longrightarrow> length (concat yss) = length yss * n"
  by (induction yss) simp_all

lemma movedim_1_last_shape:
  assumes "shape t = [n, c, h, w]"
  shows "\<exists>t'. movedim_1_last t = Inr t' \<and> shape t' = [n, h, w, c]
           \<and> length (elems t') = n * (h * w) * c"
proof -
  let ?f = "\<lambda>b. concat (map (\<lambda>q. map (\<lambda>ca. elems t ! ((b * c + ca) * (h * w) + q)) [0..<c])
                            [0..<h * w])"
  have inner: "length (?f b) = (h * w) * c" for b
    by (subst length_concat_blocks [where n = c]) auto
  have "length (concat (map ?f [0..<n])) = n * ((h * w) * c)"
    by (subst length_concat_blocks [where n = "(h * w) * c"]) (auto simp add: inner)
  then show ?thesis
    using assms by (simp add: movedim_1_last_def Let_def numel_def mult.assoc)
qed

lemma identity_field_length: "length (elems (identity_field py px)) = py * px * 2"
proof -
  let ?rows = "map (\<lambda>i. map (\<lambda>j. [linspace (- 1) 1 px ! j, linspace (- 1) 1 py ! i]) [0..<px])
                   [0..<py]"
  have "length (concat ?rows) = py * px"
    by (subst length_concat_blocks [where n = px]) auto
  moreover have "length (concat (concat ?rows)) = length (concat ?rows) * 2"
    by (rule length_concat_blocks) auto
  ultimately show ?thesis
    by (simp add: identity_field_def Let_def)
qed

lemma noise_field_shape:
  "shape (noise_field v shp) = shp \<and> length (elems (noise_field v shp)) = numel shp"
  by (simp add: noise_field_def array_map_def torch_rand_def)

lemma noise_field_range:
  assumes "\<And>i. 0 \<le> v i \<and> v i < 1" and "x \<in> set (elems (noise_field v shp))"
  shows "- 1 \<le> x \<and> x < 1"
proof -
  from assms(2) obtain i where "x = 2 * v i - 1"
    by (auto simp add: noise_field_def array_map_def torch_rand_def)
  with assms(1) [of i] show ?thesis by simp
qed

lemma warp_mode_shape:
  assumes "length (elems w) = numel (shape w)"
  shows "shape (fst (warp_mode self r v w target)) = shape w
       \<and> length (elems (fst (warp_mode self r v w target))) = length (elems w)"
  using assms noise_field_shape [of v "shape w"]
  by (simp add: warp_mode_def Let_def array_add_def)

lemma relative_field_shape:
  assumes "shape w = [1, py, px, 2]" and "length (elems w) = py * px * 2"
  shows "\<exists>w'. relative_field py px w = Inr w' \<and> shape w' = [1, py, px, 2]
           \<and> length (elems w') = py * px * 2"
  using assms identity_field_length [of py px]
  by (simp add: relative_field_def Let_def broadcast2_def array_add_def identity_field_def)

lemma normalize_field_shape:
  assumes "elems w \<noteq> []"
  shows "\<exists>w'. normalize_field w = Inr w' \<and> shape w' = shape w"
  using normalize_field_elems [OF assms] by simp

text \<open>
  Under the shape rules of the two library operations the call returns for a batch of
  one \<open>float32\<close> image with non-empty spatial axes: if \<open>F.interpolate\<close> gives a tensor
  of shape \<open>(1, 2, py, px)\<close> and \<open>F.grid_sample\<close> accepts every grid of shape
  \<open>(1, py, px, 2)\<close> and gives a tensor of the image's shape, the call returns an image.
\<close>

lemma WanetBackdoor_call_returns:
  assumes inv: "control_grid (obj s) < fresh s"
    and sh: "shape img = [1, cs, py, px]" and pos: "0 < py" "0 < px"
    and ip: "F_interpolate ops (control_grid_of s) (py, px) = Inr w0"
      "shape w0 = [1, 2, py, px]"
    and gs: "\<And>g. shape g = [1, py, px, 2]
               \<Longrightarrow> \<exists>out. F_grid_sample ops img g = Inr out \<and> shape out = [1, cs, py, px]"
  shows "\<exists>img' target'.
           snd (WanetBackdoor_call ops r v Float32 (img, target) s) = Inr (img', target')"
proof (cases "r \<le> to_float32 (float64_add (p_backdoor (obj s)) (p_noise (obj s)))")
  case False
  with sh show ?thesis
    by (simp add: WanetBackdoor_call_identity)
next
  case True
  have g: "control_grid (obj s) \<noteq> fresh s"
    using inv by simp
  from movedim_1_last_shape [OF ip(2)] obtain w1 where
    w1: "movedim_1_last w0 = Inr w1" "shape w1 = [1, py, px, 2]"
      "length (elems w1) = py * px * 2"
    by auto
  obtain w2 t2 where m: "warp_mode (obj s) r v w1 target = (w2, t2)"
    by (cases "warp_mode (obj s) r v w1 target")
  have "length (elems w1) = numel (shape w1)"
    using w1 by (simp add: numel_def)
  from warp_mode_shape [OF this, of "obj s" r v target] m w1
  have w2: "shape w2 = [1, py, px, 2]" "length (elems w2) = py * px * 2"
    by simp_all
  from relative_field_shape [OF w2] obtain w3 where
    w3: "relative_field py px w2 = Inr w3" "shape w3 = [1, py, px, 2]"
      "length (elems w3) = py * px * 2"
    by auto
  have "elems w3 \<noteq> []"
    using w3(3) pos by auto
  from normalize_field_shape [OF this] w3(2) obtain w4 where
    w4: "normalize_field w3 = Inr w4" "shape w4 = [1, py, px, 2]"
    by auto
  from gs [OF w4(2)] obtain out where
    out: "F_grid_sample ops img w4 = Inr out" "shape out = [1, cs, py, px]"
    by auto
  have "grid_sample_checked ops Float32 img w4 = Inr out"
    using out(1) sh w4(2) by (simp add: grid_sample_checked_def)
  then show ?thesis
    using True sh ip w1(1,2) m w3(1) w4 out(2) g
    by (simp add: WanetBackdoor_call_def size4_def ret_def control_grid_of_def)
qed

subsection \<open>Corner-pixel transform\<close>

text \<open>
  Claim C1.  With \<open>p_backdoor = 1\<close> the corner-pixel transform sets the pixel at the
  corner named by \<open>corner\<close>, leaves every other pixel as it was and returns
  \<open>target_class\<close>.  The module orders the spatial axes as rows then columns
  (\<open>bs, cs, py, px = img.size()\<close> in \<open>WanetBackdoor\<close>), so the top-right pixel of a
  channel-last image of 2 rows and 3 columns is \<open>img[0, 2]\<close>, element 2 in row-major
  order.  For \<open>corner = "top-right"\<close> the source writes \<open>img[-1, 0]\<close>: the run below
  sets element 3, the first pixel of the last row (bottom-left), and leaves element 2
  at its input value.  The label is \<open>target_class\<close> and one pixel only is written.
\<close>

theorem CornerPixel_top_right_writes_last_row:
  "CornerPixelBackdoor_apply \<lparr>p_backdoor = 1, target_class = 7, corner = ''top-right''\<rparr> (1 / 2)
     (\<lparr>shape = [2, 3], elems = [0, 0, 0, 0, 0, 0]\<rparr>, 3)
   = Inr (\<lparr>shape = [2, 3], elems = [0, 0, 0, 1, 0, 0]\<rparr>,
          \<lparr>shape = [2, 3], elems = [0, 0, 0, 1, 0, 0]\<rparr>, 7)
   \<and> getitem2 \<lparr>shape = [2, 3], elems = [0, 0, 0, 1, 0, 0]\<rparr> 0 2 = 0
   \<and> getitem2 \<lparr>shape = [2, 3], elems = [0, 0, 0, 1, 0, 0]\<rparr> 1 0 = 1"
  by code_simp

text \<open>
  Claim C2.  On a multi-channel image the triggered pixel is red: the maximum in
  channel 0 and zero in the other channels (the class docstring says \<open>(255, 0, 0)\<close>).
  The source assigns the scalar 1 to \<open>img[0, 0]\<close>, which numpy broadcasts over the
  channel axis: on an image of 1 row, 2 columns and 3 channels the pixel becomes
  \<open>(1, 1, 1)\<close>, not \<open>(1, 0, 0)\<close>.
\<close>

theorem CornerPixel_rgb_all_channels:
  "CornerPixelBackdoor_apply \<lparr>p_backdoor = 1, target_class = 0, corner = ''top-left''\<rparr> (1 / 2)
     (\<lparr>shape = [1, 2, 3], elems = [0, 0, 0, 0, 0, 0]\<rparr>, 5)
   = Inr (\<lparr>shape = [1, 2, 3], elems = [1, 1, 1, 0, 0, 0]\<rparr>,
          \<lparr>shape = [1, 2, 3], elems = [1, 1, 1, 0, 0, 0]\<rparr>, 0)
   \<and> getitem3 \<lparr>shape = [1, 2, 3], elems = [1, 1, 1, 0, 0, 0]\<rparr> 0 0 0 = 1
   \<and> getitem3 \<lparr>shape = [1, 2, 3], elems = [1, 1, 1, 0, 0, 0]\<rparr> 0 0 1 = 1
   \<and> getitem3 \<lparr>shape = [1, 2, 3], elems = [1, 1, 1, 0, 0, 0]\<rparr> 0 0 2 = 1"
  by code_simp

text \<open>
  Claim C10.  A call of the corner-pixel transform leaves the caller's image array
  unmodified.  The source writes into the array it was given and returns the same
  reference: after the call below, the array the caller holds (first component) and the
  array returned (second component) are one array, whose bottom-right pixel has changed
  from \<open>1/2\<close> to 1.
\<close>

theorem CornerPixel_mutates_input:
  "CornerPixelBackdoor_apply \<lparr>p_backdoor = 1, target_class = 2, corner = ''bottom-right''\<rparr> (1 / 4)
     (\<lparr>shape = [2, 2], elems = [1 / 2, 1 / 2, 1 / 2, 1 / 2]\<rparr>, 1)
   = Inr (\<lparr>shape = [2, 2], elems = [1 / 2, 1 / 2, 1 / 2, 1]\<rparr>,
          \<lparr>shape = [2, 2], elems = [1 / 2, 1 / 2, 1 / 2, 1]\<rparr>, 2)
   \<and> \<lparr>shape = [2, 2], elems = [1 / 2, 1 / 2, 1 / 2, 1 :: real]\<rparr>
       \<noteq> \<lparr>shape = [2, 2], elems = [1 / 2, 1 / 2, 1 / 2, 1 / 2]\<rparr>"
  by code_simp

subsection \<open>Noise transform\<close>

text \<open>
  Claim C9, as amended.  The noise transform with \<open>p_backdoor = 0\<close> returns image and
  label unchanged for every draw \<open>r > 0\<close>.  (The guard is \<open>r > p_backdoor\<close>, and
  \<open>torch.rand\<close> draws from the half-open interval from 0 to 1, so the draw \<open>r = 0\<close>
  is not covered.)
\<close>

theorem NoiseBackdoor_zero_probability:
  assumes "p_backdoor self = 0" and "0 < r"
  shows "NoiseBackdoor_call self r draw (img, target) = Inr (img, target)"
  using assms by (simp add: NoiseBackdoor_call_def to_float32_zero)

theorem NoiseBackdoor_zero_probability_witness:
  "p_backdoor \<lparr>p_backdoor = 0, target_class = 0, std = 3 / 10\<rparr> = 0 \<and> (0::real) < 1 / 2
   \<and> NoiseBackdoor_call \<lparr>p_backdoor = 0, target_class = 0, std = 3 / 10\<rparr> (1 / 2) (\<lambda>i. 1 / 4)
        (\<lparr>shape = [1, 2], elems = [1 / 2, 1]\<rparr>, 3)
      = Inr (\<lparr>shape = [1, 2], elems = [1 / 2, 1]\<rparr>, 3)"
  using NoiseBackdoor_zero_probability
    [of "\<lparr>p_backdoor = 0, target_class = 0, std = 3 / 10\<rparr>" "1 / 2" "\<lambda>i. 1 / 4"
        "\<lparr>shape = [1, 2], elems = [1 / 2, 1]\<rparr>" 3]
  by simp

text \<open>
  The statement of claim C9, for every value of the draw, fails at \<open>r = 0\<close>: the guard
  \<open>0 > 0\<close> is false, noise is added and the label becomes \<open>target_class\<close>.
\<close>

theorem NoiseBackdoor_zero_draw_counterexample:
  "NoiseBackdoor_call \<lparr>p_backdoor = 0, target_class = 0, std = 3 / 10\<rparr> 0 (\<lambda>i. 1 / 4)
        (\<lparr>shape = [1, 2], elems = [1 / 2, 1]\<rparr>, 3)
    = Inr (\<lparr>shape = [1, 2], elems = [3 / 4, 5 / 4]\<rparr>, 0)
   \<and> NoiseBackdoor_call \<lparr>p_backdoor = 0, target_class = 0, std = 3 / 10\<rparr> 0 (\<lambda>i. 1 / 4)
        (\<lparr>shape = [1, 2], elems = [1 / 2, 1]\<rparr>, 3)
    \<noteq> Inr (\<lparr>shape = [1, 2], elems = [1 / 2, 1]\<rparr>, 3)"
  by code_simp

subsection \<open>WaNet transform\<close>

text \<open>
  Claim C3.  The control grid sampled at construction has shape
  \<open>(1, 2, control_grid_width, control_grid_width)\<close>, and no call changes it: what a
  read of \<open>self.control_grid\<close> yields is the same, element for element, after one call
  (whether the call returned or raised) and after any run of calls.  The calls are
  arbitrary: any draws, any image, any behaviour of the two library operations.
\<close>

theorem control_grid_fixed:
  assumes "WanetBackdoor_init pb pn w s tc u c n = Inr s0"
  shows "shape (control_grid_of s0)
           = [1, 2, nat (control_grid_width (obj s0)), nat (control_grid_width (obj s0))]
       \<and> 0 \<le> control_grid_width (obj s0)
       \<and> wf_array (control_grid_of s0)
       \<and> control_grid_of (fst (WanetBackdoor_call ops r v dt sample s0)) = control_grid_of s0
       \<and> control_grid_of (WanetBackdoor_run ops cs s0) = control_grid_of s0"
proof -
  note g = WanetBackdoor_init_grid [OF assms]
  have "control_grid_of (fst (WanetBackdoor_call ops r v dt sample s0)) = control_grid_of s0"
    by (rule WanetBackdoor_call_keeps_grid(1) [OF g(5)])
  moreover have "control_grid_of (WanetBackdoor_run ops cs s0) = control_grid_of s0"
    by (rule WanetBackdoor_run_keeps_grid [OF g(5)])
  ultimately show ?thesis
    using g(1-4) by (simp add: wf_array_def numel_def)
qed

theorem control_grid_fixed_witness:
  "map_sum id control_grid_of
     (WanetBackdoor_init (1 / 2) (1 / 4) 2 (9 / 2) 7 (\<lambda>i. real i / 10) empty_store 0)
     = Inr \<lparr>shape = [1, 2, 2, 2], elems = [- 10, - 8, - 6, - 4, - 2, 0, 2, 4]\<rparr>
   \<and> (\<exists>s0. WanetBackdoor_init (1 / 2) (1 / 4) 2 (9 / 2) 7 (\<lambda>i. real i / 10) empty_store 0 = Inr s0
          \<and> control_grid_of
               (WanetBackdoor_run nearest_ops
                  [(1 / 2, \<lambda>i. 1 / 3, Float32, (example_image, 3)),
                   (1 / 8, \<lambda>i. real (i mod 3) / 3, Float32, (example_image, 5))] s0)
             = \<lparr>shape = [1, 2, 2, 2], elems = [- 10, - 8, - 6, - 4, - 2, 0, 2, 4]\<rparr>)"
proof -
  let ?init = "WanetBackdoor_init (1 / 2) (1 / 4) 2 (9 / 2) 7 (\<lambda>i. real i / 10) empty_store 0"
  let ?g = "\<lparr>shape = [1, 2, 2, 2], elems = [- 10, - 8, - 6, - 4, - 2, 0, 2, 4 :: real]\<rparr>"
  have e: "map_sum id control_grid_of ?init = Inr ?g"
    by code_simp
  then obtain s0 where s0: "?init = Inr s0" and g: "control_grid_of s0 = ?g"
    by (cases ?init) auto
  from control_grid_fixed [OF s0]
  have "control_grid_of
          (WanetBackdoor_run nearest_ops
             [(1 / 2, \<lambda>i. 1 / 3, Float32, (example_image, 3)),
              (1 / 8, \<lambda>i. real (i mod 3) / 3, Float32, (example_image, 5))] s0)
          = control_grid_of s0"
    by blast
  with g have "control_grid_of
          (WanetBackdoor_run nearest_ops
             [(1 / 2, \<lambda>i. 1 / 3, Float32, (example_image, 3)),
              (1 / 8, \<lambda>i. real (i mod 3) / 3, Float32, (example_image, 5))] s0) = ?g"
    by (simp only:)
  with e s0 show ?thesis
    by blast
qed

text \<open>
  Claim C4, as amended.  With a non-negative \<open>control_grid_width\<close>, construction
  succeeds exactly when the sum \<open>p_backdoor + p_noise\<close>, as line 103 computes it in
  \<open>float64\<close>, lies between 0 and 1, which it does whenever the exact sum lies between
  0 and 1; otherwise construction fails, at construction, with \<open>AssertionError\<close>.
\<close>

theorem WanetBackdoor_init_probabilities:
  assumes "0 \<le> w"
  shows "(if 0 \<le> float64_add pb pn \<and> float64_add pb pn \<le> 1
          then \<exists>s0. WanetBackdoor_init pb pn w s tc u c n = Inr s0
          else WanetBackdoor_init pb pn w s tc u c n = Inl AssertionError)
       \<and> (0 \<le> pb + pn \<and> pb + pn \<le> 1
            \<longrightarrow> (\<exists>s0. WanetBackdoor_init pb pn w s tc u c n = Inr s0))"
proof -
  have first: "if 0 \<le> float64_add pb pn \<and> float64_add pb pn \<le> 1
               then \<exists>s0. WanetBackdoor_init pb pn w s tc u c n = Inr s0
               else WanetBackdoor_init pb pn w s tc u c n = Inl AssertionError"
    using assms by (simp add: WanetBackdoor_init_def Let_def array_map_def torch_rand_def)
  moreover have "\<exists>s0. WanetBackdoor_init pb pn w s tc u c n = Inr s0"
    if "0 \<le> pb + pn \<and> pb + pn \<le> 1"
    using first float64_add_unit_interval [of pb pn] that by simp
  ultimately show ?thesis
    by blast
qed

theorem WanetBackdoor_init_probabilities_witness:
  "(0::int) \<le> 4 \<and> (0::real) \<le> 1 / 2 + 1 / 2 \<and> (1 / 2 + 1 / 2 :: real) \<le> 1
   \<and> (\<exists>s0. WanetBackdoor_init (1 / 2) (1 / 2) 4 (1 / 2) 0 (\<lambda>i. 3 / 4) empty_store 0 = Inr s0)"
  using WanetBackdoor_init_probabilities [of 4 "1 / 2" "1 / 2" "1 / 2" 0 "\<lambda>i. 3 / 4" empty_store 0]
  by simp

text \<open>
  The statement of claim C4 fails in three ways.  It names \<open>ConfigurationError\<close>: the
  source checks with \<open>assert\<close>, and the sum 1.25 fails with \<open>AssertionError\<close>.  It says
  that construction fails whenever the sum exceeds 1: for \<open>p_backdoor = 1\<close> and
  \<open>p_noise = 2^-60\<close> the \<open>float64\<close> sum is 1 and construction succeeds.  It says that
  construction succeeds for every pair with a sum of at most 1: with
  \<open>control_grid_width = -1\<close> it fails, with the \<open>RuntimeError\<close> of \<open>torch.rand\<close>.
\<close>

theorem WanetBackdoor_init_counterexample:
  "WanetBackdoor_init (3 / 4) (1 / 2) 4 (1 / 2) 0 (\<lambda>i. 3 / 4) empty_store 0 = Inl AssertionError
   \<and> WanetBackdoor_init (3 / 4) (1 / 2) 4 (1 / 2) 0 (\<lambda>i. 3 / 4) empty_store 0
       \<noteq> Inl ConfigurationError
   \<and> (1::real) < 1 + 1 / 2 ^ 60
   \<and> map_sum id control_grid_of
        (WanetBackdoor_init 1 (1 / 2 ^ 60) 1 (1 / 2) 0 (\<lambda>i. 3 / 4) empty_store 0)
       = Inr \<lparr>shape = [1, 2, 1, 1], elems = [1 / 2, 1 / 2]\<rparr>
   \<and> (1 / 2 + 1 / 4 :: real) \<le> 1
   \<and> WanetBackdoor_init (1 / 2) (1 / 4) (- 1) (1 / 2) 0 (\<lambda>i. 3 / 4) empty_store 0
       = Inl RuntimeError"
proof -
  have sum: "float64_add (3 / 4) (1 / 2) = 5 / 4"
    by code_simp
  have kind: "WanetBackdoor_init (3 / 4) (1 / 2) 4 (1 / 2) 0 (\<lambda>i. 3 / 4) empty_store 0
                = Inl AssertionError"
    by (simp add: WanetBackdoor_init_def Let_def array_map_def torch_rand_def sum)
  have rounded: "map_sum id control_grid_of
        (WanetBackdoor_init 1 (1 / 2 ^ 60) 1 (1 / 2) 0 (\<lambda>i. 3 / 4) empty_store 0)
       = Inr \<lparr>shape = [1, 2, 1, 1], elems = [1 / 2, 1 / 2]\<rparr>"
    by code_simp
  have width: "WanetBackdoor_init (1 / 2) (1 / 4) (- 1) (1 / 2) 0 (\<lambda>i. 3 / 4) empty_store 0
                 = Inl RuntimeError"
    by (simp add: WanetBackdoor_init_def)
  show ?thesis
    using kind rounded width by simp
qed

text \<open>
  Claim C5, as amended.  On an image with four axes, a draw \<open>r\<close> above the threshold
  that line 112 compares it with, the \<open>float64\<close> sum \<open>p_backdoor + p_noise\<close> converted
  to \<open>float32\<close>, makes the call return the image and the label it was given.
\<close>

theorem WanetBackdoor_identity_branch:
  assumes "length (shape img) = 4"
    and "to_float32 (float64_add (p_backdoor (obj s)) (p_noise (obj s))) < r"
  shows "snd (WanetBackdoor_call ops r v dt (img, target) s) = Inr (img, target)"
proof -
  obtain bs cs py px where "shape img = [bs, cs, py, px]"
    using assms(1) by (auto simp add: length_Suc_conv numeral_eq_Suc)
  then show ?thesis
    using assms(2) by (rule WanetBackdoor_call_identity)
qed

theorem WanetBackdoor_identity_branch_witness:
  "length (shape example_image) = 4
   \<and> to_float32 (float64_add (p_backdoor (obj example_world)) (p_noise (obj example_world)))
       < 9 / 10
   \<and> snd (WanetBackdoor_call nearest_ops (9 / 10) (\<lambda>i. 1 / 3) Float32 (example_image, 3)
            example_world)
       = Inr (example_image, 3)"
proof -
  have a: "length (shape example_image) = 4"
    by (simp add: example_image_def)
  have b: "to_float32 (float64_add (p_backdoor (obj example_world)) (p_noise (obj example_world)))
             < 9 / 10"
    by code_simp
  show ?thesis
    using a b WanetBackdoor_identity_branch [OF a b] by simp
qed

text \<open>
  The statement of claim C5 compares the draw with the exact sum.  For
  \<open>p_backdoor = 0.5\<close> and \<open>p_noise = 0.1\<close> (the \<open>float64\<close> nearest to it) the sum is
  the \<open>float64\<close> nearest to 0.6, which \<open>float32\<close> rounds up to \<open>5033165 / 2^23\<close>.  The
  draw \<open>r = 5033165 / 2^23\<close>, a value of \<open>torch.rand\<close>, is above the sum and not above
  the threshold: the call goes through the triggered branch and returns the label
  \<open>target_class\<close>, whatever the library operations do.
\<close>

theorem WanetBackdoor_identity_counterexample:
  "(1 / 2 + 3602879701896397 / 36028797018963968 :: real) < 5033165 / 8388608
   \<and> snd (WanetBackdoor_call nearest_ops (5033165 / 8388608) (\<lambda>i. 1 / 3) Float32
            (example_image, 3)
            (example_world\<lparr>obj := (obj example_world)
               \<lparr>p_noise := 3602879701896397 / 36028797018963968\<rparr>\<rparr>))
       = Inr (\<lparr>shape = [1, 2, 2, 3], elems = [1, 1, 2, 5, 5, 6, 7, 7, 8, 11, 11, 12]\<rparr>, 7)
   \<and> (\<forall>ops. snd (WanetBackdoor_call ops (5033165 / 8388608) (\<lambda>i. 1 / 3) Float32
            (example_image, 3)
            (example_world\<lparr>obj := (obj example_world)
               \<lparr>p_noise := 3602879701896397 / 36028797018963968\<rparr>\<rparr>))
       \<noteq> Inr (example_image, 3))"
proof -
  let ?s = "example_world\<lparr>obj := (obj example_world)
              \<lparr>p_noise := 3602879701896397 / 36028797018963968\<rparr>\<rparr>"
  let ?r = "5033165 / 8388608 :: real"
  have above: "(1 / 2 + 3602879701896397 / 36028797018963968 :: real) < ?r"
    by simp
  have run: "snd (WanetBackdoor_call nearest_ops ?r (\<lambda>i. 1 / 3) Float32 (example_image, 3) ?s)
               = Inr (\<lparr>shape = [1, 2, 2, 3], elems = [1, 1, 2, 5, 5, 6, 7, 7, 8, 11, 11, 12]\<rparr>, 7)"
    by code_simp
  have inv: "control_grid (obj ?s) < fresh ?s"
    by (simp add: example_world_def)
  have trig: "?r \<le> to_float32 (float64_add (p_backdoor (obj ?s)) (p_noise (obj ?s)))"
    by code_simp
  have mode: "\<not> ?r < to_float32 (p_noise (obj ?s))"
    by code_simp
  have "snd (WanetBackdoor_call ops ?r (\<lambda>i. 1 / 3) Float32 (example_image, 3) ?s)
          \<noteq> Inr (example_image, 3)" for ops
  proof
    assume "snd (WanetBackdoor_call ops ?r (\<lambda>i. 1 / 3) Float32 (example_image, 3) ?s)
              = Inr (example_image, 3)"
    from WanetBackdoor_call_triggered [OF inv trig this]
    obtain w1 where "(3::int) = snd (warp_mode (obj ?s) ?r (\<lambda>i. 1 / 3) w1 3)"
      by blast
    with mode show False
      by (simp add: warp_mode_def example_world_def)
  qed
  with above run show ?thesis
    by blast
qed

text \<open>
  Claim C6, as amended.  When the transform is triggered and the call returns, the
  returned label is the input label if \<open>r\<close> is below \<open>p_noise\<close> converted to
  \<open>float32\<close>, the comparison line 121 makes, and \<open>target_class\<close> otherwise.  The image
  returned is \<open>F.grid_sample\<close> of the input at the rescaled field, and that field is
  computed from the interpolated grid \<open>w1\<close>: in noise mode from \<open>w1\<close> plus a tensor of
  the same shape whose elements are \<open>2 v - 1\<close> for the draws \<open>v\<close> of \<open>torch.rand_like\<close>,
  each of them from \<open>-1\<close> up to 1; in adversary mode from \<open>w1\<close> itself.  The state is
  one in which the grid is in the store, as construction leaves it.
\<close>

theorem WanetBackdoor_modes:
  assumes "control_grid (obj s) < fresh s"
    and "r \<le> to_float32 (float64_add (p_backdoor (obj s)) (p_noise (obj s)))"
    and "snd (WanetBackdoor_call ops r v dt (img, target) s) = Inr (img', target')"
    and "\<forall>i. 0 \<le> v i \<and> v i < 1"
  shows "target' = (if r < to_float32 (p_noise (obj s)) then target else target_class (obj s))
       \<and> (\<exists>w0 w1 w3 w4.
             F_interpolate ops (control_grid_of s) (shape img ! 2, shape img ! 3) = Inr w0
           \<and> movedim_1_last w0 = Inr w1
           \<and> shape (noise_field v (shape w1)) = shape w1
           \<and> (\<forall>x \<in> set (elems (noise_field v (shape w1))). - 1 \<le> x \<and> x < 1)
           \<and> relative_field (shape img ! 2) (shape img ! 3)
                (if r < to_float32 (p_noise (obj s))
                 then array_add w1 (noise_field v (shape w1)) else w1) = Inr w3
           \<and> normalize_field w3 = Inr w4
           \<and> grid_sample_checked ops dt img w4 = Inr img')"
proof -
  from WanetBackdoor_call_triggered [OF assms(1-3)]
  obtain bs cs py px w0 w1 w3 w4 where
    sh: "shape img = [bs, cs, py, px]"
    and w0: "F_interpolate ops (control_grid_of s) (py, px) = Inr w0"
    and w1: "movedim_1_last w0 = Inr w1"
    and w3: "relative_field py px (fst (warp_mode (obj s) r v w1 target)) = Inr w3"
    and w4: "normalize_field w3 = Inr w4"
    and out: "grid_sample_checked ops dt img w4 = Inr img'"
    and t: "target' = snd (warp_mode (obj s) r v w1 target)"
    by blast
  have label: "target' = (if r < to_float32 (p_noise (obj s)) then target else target_class (obj s))"
    using t by (simp add: warp_mode_def Let_def)
  have field: "fst (warp_mode (obj s) r v w1 target)
                 = (if r < to_float32 (p_noise (obj s))
                    then array_add w1 (noise_field v (shape w1)) else w1)"
    by (simp add: warp_mode_def Let_def)
  have range: "\<forall>x \<in> set (elems (noise_field v (shape w1))). - 1 \<le> x \<and> x < 1"
    using noise_field_range [of v] assms(4) by blast
  have idx: "shape img ! 2 = py" "shape img ! 3 = px"
    using sh by simp_all
  show ?thesis
    using label w0 w1 w3 w4 out range noise_field_shape [of v "shape w1"]
    unfolding field idx by blast
qed

theorem WanetBackdoor_modes_witness:
  "control_grid (obj example_world) < fresh example_world
   \<and> (1 / 8 :: real)
       \<le> to_float32 (float64_add (p_backdoor (obj example_world)) (p_noise (obj example_world)))
   \<and> 1 / 8 < to_float32 (p_noise (obj example_world))
   \<and> snd (WanetBackdoor_call nearest_ops (1 / 8) (\<lambda>i. real (i mod 3) / 3) Float32
            (example_image, 3) example_world)
       = Inr (\<lparr>shape = [1, 2, 2, 3], elems = [1, 1, 2, 5, 6, 6, 7, 7, 8, 11, 12, 12]\<rparr>, 3)
   \<and> (1 / 2 :: real)
       \<le> to_float32 (float64_add (p_backdoor (obj example_world)) (p_noise (obj example_world)))
   \<and> \<not> 1 / 2 < to_float32 (p_noise (obj example_world))
   \<and> snd (WanetBackdoor_call nearest_ops (1 / 2) (\<lambda>i. real (i mod 3) / 3) Float32
            (example_image, 3) example_world)
       = Inr (\<lparr>shape = [1, 2, 2, 3], elems = [1, 1, 2, 5, 5, 6, 7, 7, 8, 11, 11, 12]\<rparr>, 7)
   \<and> target_class (obj example_world) = 7"
proof -
  let ?v = "\<lambda>i::nat. real (i mod 3) / 3"
  have inv: "control_grid (obj example_world) < fresh example_world"
    by (simp add: example_world_def)
  have n1: "(1 / 8 :: real)
      \<le> to_float32 (float64_add (p_backdoor (obj example_world)) (p_noise (obj example_world)))"
    by code_simp
  have a1: "(1 / 2 :: real)
      \<le> to_float32 (float64_add (p_backdoor (obj example_world)) (p_noise (obj example_world)))"
    by code_simp
  have n3: "1 / 8 < to_float32 (p_noise (obj example_world))"
    by code_simp
  have a3: "\<not> 1 / 2 < to_float32 (p_noise (obj example_world))"
    by code_simp
  have n2: "snd (WanetBackdoor_call nearest_ops (1 / 8) ?v Float32 (example_image, 3) example_world)
              = Inr (\<lparr>shape = [1, 2, 2, 3], elems = [1, 1, 2, 5, 6, 6, 7, 7, 8, 11, 12, 12]\<rparr>, 3)"
    by code_simp
  have a2: "snd (WanetBackdoor_call nearest_ops (1 / 2) ?v Float32 (example_image, 3) example_world)
              = Inr (\<lparr>shape = [1, 2, 2, 3], elems = [1, 1, 2, 5, 5, 6, 7, 7, 8, 11, 11, 12]\<rparr>, 7)"
    by code_simp
  have v: "\<forall>i. 0 \<le> ?v i \<and> ?v i < 1"
    by simp
  have t: "target_class (obj example_world) = 7"
    by (simp add: example_world_def)
  note noise = WanetBackdoor_modes [OF inv n1 n2 v, THEN conjunct1]
  note adv = WanetBackdoor_modes [OF inv a1 a2 v, THEN conjunct1]
  show ?thesis
    using noise adv inv n1 n3 n2 a1 a3 a2 t by - (intro conjI, assumption+)
qed

text \<open>
  The statement of claim C6 tests \<open>r < p_noise\<close> exactly.  For \<open>p_noise = 0.7\<close> (the
  \<open>float64\<close> nearest to it), which \<open>float32\<close> rounds down to \<open>11744051 / 2^24\<close>, and
  \<open>p_backdoor = 0.25\<close>, the draw \<open>r = 11744051 / 2^24\<close> is below \<open>p_noise\<close> and within
  the triggered range, yet line 121 finds \<open>r < r\<close> false: the call takes adversary mode
  and overwrites the label 3 by \<open>target_class = 7\<close>.
\<close>

theorem WanetBackdoor_modes_counterexample:
  "(11744051 / 16777216 :: real) < 3152519739159347 / 4503599627370496
   \<and> (11744051 / 16777216 :: real) \<le> 1 / 4 + 3152519739159347 / 4503599627370496
   \<and> snd (WanetBackdoor_call nearest_ops (11744051 / 16777216) (\<lambda>i. real (i mod 3) / 3) Float32
            (example_image, 3)
            (example_world\<lparr>obj := (obj example_world)
               \<lparr>p_backdoor := 1 / 4, p_noise := 3152519739159347 / 4503599627370496\<rparr>\<rparr>))
       = Inr (\<lparr>shape = [1, 2, 2, 3], elems = [1, 1, 2, 5, 5, 6, 7, 7, 8, 11, 11, 12]\<rparr>, 7)"
  by code_simp

text \<open>
  Claim C7.  After the min-max rescale, a coordinate of the field that is not constant
  (\<open>max > min\<close>) has minimum \<open>-1\<close> and maximum 1 over all pixels; the rescale returns
  and keeps the shape.
\<close>

theorem normalize_field_spans:
  assumes "c < 2"
    and "list_min (column c (elems w)) < list_max (column c (elems w))"
  shows "\<exists>w'. normalize_field w = Inr w' \<and> shape w' = shape w
           \<and> list_min (column c (elems w')) = - 1
           \<and> list_max (column c (elems w')) = 1"
proof -
  let ?xs = "elems w"
  have col: "column c ?xs \<noteq> []"
  proof
    assume "column c ?xs = []"
    then have "list_min (column c ?xs) = list_max (column c ?xs)"
      by (simp add: list_min_def list_max_def)
    with assms(2) show False by simp
  qed
  then have ne: "?xs \<noteq> []"
    by (auto simp add: column_def)
  let ?lo = "\<lambda>k. list_min (column k ?xs)" and ?hi = "\<lambda>k. list_max (column k ?xs)"
  let ?ys = "map (\<lambda>i. rescale (?lo (i mod 2)) (?hi (i mod 2)) (?xs ! i)) [0..<length ?xs]"
  have eq: "normalize_field w = Inr (w\<lparr>elems := ?ys\<rparr>)"
    by (rule normalize_field_elems [OF ne])
  have cy: "column c ?ys = map (rescale (?lo c) (?hi c)) (column c ?xs)"
    by (rule column_normalized [OF assms(1)])
  have m: "mono (rescale (?lo c) (?hi c))"
    by (rule rescale_mono [OF assms(2)])
  have "list_min (column c ?ys) = - 1"
    by (simp only: cy list_min_map_mono [OF m col] rescale_lo)
  moreover have "list_max (column c ?ys) = 1"
    by (simp only: cy list_max_map_mono [OF m col] rescale_hi [OF assms(2)])
  ultimately show ?thesis
    using eq by simp
qed

theorem normalize_field_spans_witness:
  "(0::nat) < 2
   \<and> list_min (column 0 (elems \<lparr>shape = [1, 1, 2, 2], elems = [0, 1 / 2, 3, 5]\<rparr>))
       < list_max (column 0 (elems \<lparr>shape = [1, 1, 2, 2], elems = [0, 1 / 2, 3, 5]\<rparr>))
   \<and> (\<exists>w'. normalize_field \<lparr>shape = [1, 1, 2, 2], elems = [0, 1 / 2, 3, 5]\<rparr> = Inr w'
          \<and> shape w' = [1, 1, 2, 2]
          \<and> list_min (column 0 (elems w')) = - 1
          \<and> list_max (column 0 (elems w')) = 1)"
proof -
  let ?w = "\<lparr>shape = [1, 1, 2, 2], elems = [0, 1 / 2, 3, 5 :: real]\<rparr>"
  have c: "(0::nat) < 2"
    by simp
  have m: "list_min (column 0 (elems ?w)) < list_max (column 0 (elems ?w))"
    by code_simp
  show ?thesis
    using c m normalize_field_spans [OF c m] by simp
qed

text \<open>
  Claim C8.  For every four-axis image the call returns an image of the same shape,
  in the identity branch and in the triggered one.  The source unpacks a batch size
  \<open>bs\<close> and asserts the shape \<open>(bs, cs, py, px)\<close> of its result, but the field it
  passes to \<open>F.grid_sample\<close> has batch size 1 and dtype \<open>float32\<close>.  In the triggered
  branch a batch of two \<open>float32\<close> images raises \<open>RuntimeError\<close> instead of returning
  an image, and so does a single \<open>float64\<close> image.
\<close>

theorem WanetBackdoor_batch_raises:
  "snd (WanetBackdoor_call nearest_ops (1 / 2) (\<lambda>i. 1 / 3) Float32
          (\<lparr>shape = [2, 1, 2, 2], elems = [1, 2, 3, 4, 5, 6, 7, 8]\<rparr>, 3) example_world)
     = Inl RuntimeError
   \<and> snd (WanetBackdoor_call nearest_ops (1 / 2) (\<lambda>i. 1 / 3) Float64 (example_image, 3)
            example_world)
     = Inl RuntimeError"
  by code_simp

end
